theory Spec2Isabelle
  imports Complex_Main
begin

section \<open>The snake game of \<open>src/game.ts\<close>\<close>

text \<open>
  A shallow embedding of the game: headings, grid cells, the board, the game state, the
  accumulator function that \<open>Game.gameOn\<close> hands to \<open>scan\<close>, the stream built around it
  (\<open>startWith\<close>, \<open>takeWhile\<close>, \<open>takeUntil\<close>, \<open>subscribe\<close>) and the module-level
  \<open>gameOn\<close> with its \<open>currentGame\<close> slot.

  JavaScript numbers are doubles. Grid coordinates are integers far below \<open>2^53\<close>, where
  double arithmetic is exact, so they are modelled as \<open>int\<close>. The results of
  \<open>Math.random()\<close> and the size of the bounding rectangle are modelled as \<open>real\<close>.
\<close>

subsection \<open>Headings\<close>

datatype Heading = N | E | S | W

fun isOpposite :: "Heading \<Rightarrow> Heading \<Rightarrow> bool" where
  "isOpposite N heading2 = (heading2 = S)"
| "isOpposite E heading2 = (heading2 = W)"
| "isOpposite S heading2 = (heading2 = N)"
| "isOpposite W heading2 = (heading2 = E)"

subsection \<open>Cells\<close>

text \<open>The fields \<open>x\<close> and \<open>y\<close> of \<open>CellLocation\<close> are \<open>cell_x\<close> and \<open>cell_y\<close> here.\<close>

record CellLocation =
  cell_x :: int
  cell_y :: int

text \<open>\<open>CellLocation.next\<close> (\<open>next\<close> is a keyword of the proof language).\<close>

fun next_cell :: "CellLocation \<Rightarrow> Heading \<Rightarrow> CellLocation" where
  "next_cell c N = \<lparr>cell_x = cell_x c, cell_y = cell_y c - 1\<rparr>"
| "next_cell c E = \<lparr>cell_x = cell_x c + 1, cell_y = cell_y c\<rparr>"
| "next_cell c S = \<lparr>cell_x = cell_x c, cell_y = cell_y c + 1\<rparr>"
| "next_cell c W = \<lparr>cell_x = cell_x c - 1, cell_y = cell_y c\<rparr>"

text \<open>
  The conversion of an integer to a string that \<open>this.x + "_" + this.y\<close> performs: the
  decimal digits, most significant first, after a minus sign for a negative number.
  (JavaScript writes an exponent from \<open>10^21\<close> on; no coordinate comes near.)
\<close>

function digits :: "nat \<Rightarrow> string" where
  "digits n =
     (if n < 10 then [''0123456789'' ! n]
      else digits (n div 10) @ [''0123456789'' ! (n mod 10)])"
  by pat_completeness auto
termination
  by (relation "measure (\<lambda>n. n)") auto

declare digits.simps [simp del]

definition toString :: "int \<Rightarrow> string" where
  "toString i = (if i < 0 then CHR ''-'' # digits (nat (- i)) else digits (nat i))"

text \<open>The getter \<open>CellLocation.id\<close>.\<close>

definition cell_id :: "CellLocation \<Rightarrow> string" where
  "cell_id c = toString (cell_x c) @ ''_'' @ toString (cell_y c)"

subsection \<open>The board\<close>

record Board =
  width :: int
  height :: int
  cellSize :: int

text \<open>The constructor of \<open>Board\<close>, from the width and height of the bounding rectangle.\<close>

definition Board_new :: "real \<Rightarrow> real \<Rightarrow> int \<Rightarrow> Board" where
  "Board_new rect_w rect_h cs =
     \<lparr>width = \<lfloor>rect_w / real_of_int cs\<rfloor>, height = \<lfloor>rect_h / real_of_int cs\<rfloor>, cellSize = cs\<rparr>"

text \<open>The parameter \<open>size\<close> (here \<open>size0\<close>) is not used by the source either.\<close>

definition startSnake :: "Board \<Rightarrow> nat \<Rightarrow> Heading \<Rightarrow> CellLocation list" where
  "startSnake board size0 heading0 =
     (let centre = \<lparr>cell_x = width board div 2, cell_y = height board div 2\<rparr>
      in [centre, next_cell centre heading0])"

definition isWithinBounds :: "Board \<Rightarrow> CellLocation \<Rightarrow> bool" where
  "isWithinBounds board location =
     (cell_x location \<ge> 0 \<and> cell_x location < width board \<and>
      cell_y location \<ge> 0 \<and> cell_y location < height board)"

record Rect =
  rect_x :: int
  rect_y :: int
  rect_width :: int
  rect_height :: int

definition getRect :: "Board \<Rightarrow> CellLocation \<Rightarrow> Rect" where
  "getRect board cellLocation =
     \<lparr>rect_x = cell_x cellLocation * cellSize board,
      rect_y = cell_y cellLocation * cellSize board,
      rect_width = cellSize board,
      rect_height = cellSize board\<rparr>"

text \<open>
  \<open>Board.random\<close>; \<open>r1\<close> and \<open>r2\<close> are the results of its two calls of \<open>Math.random()\<close>.
\<close>

definition Board_random :: "Board \<Rightarrow> real \<Rightarrow> real \<Rightarrow> CellLocation" where
  "Board_random board r1 r2 =
     \<lparr>cell_x = \<lfloor>r1 * real_of_int (width board)\<rfloor>,
      cell_y = \<lfloor>r2 * real_of_int (height board)\<rfloor>\<rparr>"

subsection \<open>The game state\<close>

record Snake =
  body :: "CellLocation list"
  heading :: Heading

record SnakeEvolution =
  newHead :: "CellLocation list"
  oldTail :: "CellLocation list"

record GameState =
  isAlive :: bool
  snake :: Snake
  snakeEvolution :: SnakeEvolution
  foodLocation :: "CellLocation option"

definition state0 :: "Board \<Rightarrow> GameState" where
  "state0 board =
     (let start = startSnake board 2 E
      in \<lparr>isAlive = True,
          snake = \<lparr>body = start, heading = E\<rparr>,
          snakeEvolution = \<lparr>newHead = start, oldTail = []\<rparr>,
          foodLocation = None\<rparr>)"

subsection \<open>The accumulator function of \<open>scan\<close>\<close>

text \<open>
  Reading the last cell of an empty body gives \<open>undefined\<close>, and calling \<open>next\<close> on it
  throws.
\<close>

datatype error = TypeError

text \<open>The call \<open>this.endGame(score)\<close>.\<close>

datatype effect = EndGame nat

text \<open>The local constant \<open>newHeading\<close>.\<close>

definition newHeading :: "GameState \<Rightarrow> Heading \<Rightarrow> Heading" where
  "newHeading acc curr_heading =
     (if isOpposite (heading (snake acc)) curr_heading then heading (snake acc)
      else curr_heading)"

text \<open>The local constant \<open>newHead\<close>, for a body that is not empty.\<close>

definition movedHead :: "GameState \<Rightarrow> Heading \<Rightarrow> CellLocation" where
  "movedHead acc curr_heading = next_cell (last (body (snake acc))) (newHeading acc curr_heading)"

text \<open>The local constant \<open>didDie\<close>.\<close>

definition didDie :: "Board \<Rightarrow> GameState \<Rightarrow> CellLocation \<Rightarrow> bool" where
  "didDie board acc nh =
     (\<not> isWithinBounds board nh \<or>
      find (\<lambda>c. cell_id c = cell_id nh) (body (snake acc)) \<noteq> None)"

text \<open>The local constant \<open>didEat\<close>, read as a truth value.\<close>

definition didEat :: "GameState \<Rightarrow> CellLocation \<Rightarrow> bool" where
  "didEat acc nh =
     (case foodLocation acc of None \<Rightarrow> False | Some f \<Rightarrow> cell_id f = cell_id nh)"

text \<open>
  The function given to \<open>scan\<close>: \<open>acc\<close> is the previous state, \<open>curr_heading\<close> the
  heading sampled for this tick (the second component of \<open>curr\<close>), \<open>r1\<close> and \<open>r2\<close> the random numbers \<open>Board.random\<close> draws when it is called.
\<close>

definition transition ::
  "Board \<Rightarrow> GameState \<Rightarrow> Heading \<Rightarrow> real \<Rightarrow> real \<Rightarrow> error + (GameState \<times> effect list)" where
  "transition board acc curr_heading r1 r2 =
     (case body (snake acc) of
        [] \<Rightarrow> Inl TypeError
      | b0 # rest \<Rightarrow>
          let nh = movedHead acc curr_heading in
          if didDie board acc nh
          then Inr (acc\<lparr>isAlive := False\<rparr>, [EndGame (length (body (snake acc)))])
          else
            let ate = didEat acc nh in
            Inr (\<lparr>isAlive = True,
                  snake = \<lparr>body = (if ate then body (snake acc) @ [nh] else rest @ [nh]),
                           heading = newHeading acc curr_heading\<rparr>,
                  snakeEvolution = \<lparr>newHead = [nh], oldTail = (if ate then [] else [b0])\<rparr>,
                  foodLocation =
                    (if ate \<or> foodLocation acc = None then Some (Board_random board r1 r2)
                     else foodLocation acc)\<rparr>, []))"

subsection \<open>The stream of one session\<close>

text \<open>
  What a subscription of the pipeline of \<open>Game.gameOn\<close> does, in order: \<open>Deliver gs\<close> is a
  call of the function given to \<open>subscribe\<close> (the renderer) with \<open>gs\<close>, \<open>Notify (EndGame n)\<close>
  a call of \<open>this.endGame(n)\<close>. The second component is the exception that ended the
  subscription, if one did. A tick is the heading that \<open>withLatestFrom\<close> pairs with an
  emission of the timer, and the random numbers available to the accumulator function.
  The list of ticks is the emissions of the timer before \<open>destroyed$\<close> fires, if it does.

  \<open>takeWhile\<close> has no \<open>inclusive\<close> argument: the first state that fails its predicate
  completes the stream and is not passed on; the timer is unsubscribed, so the accumulator
  function does not run again.
\<close>

datatype event = Deliver GameState | Notify effect

type_synonym tick = "Heading \<times> real \<times> real"

fun pump :: "Board \<Rightarrow> GameState \<Rightarrow> tick list \<Rightarrow> event list \<times> error option" where
  "pump board acc [] = ([], None)"
| "pump board acc ((h, r1, r2) # ticks) =
     (case transition board acc h r1 r2 of
        Inl e \<Rightarrow> ([], Some e)
      | Inr (st, fx) \<Rightarrow>
          if isAlive st
          then (let (out, err) = pump board st ticks in (map Notify fx @ Deliver st # out, err))
          else (map Notify fx, None))"

text \<open>\<open>startWith(state0)\<close> in front of the scanned states.\<close>

definition session :: "Board \<Rightarrow> tick list \<Rightarrow> event list \<times> error option" where
  "session board ticks =
     (if isAlive (state0 board)
      then (let (out, err) = pump board (state0 board) ticks in (Deliver (state0 board) # out, err))
      else ([], None))"

text \<open>The states the accumulator function produces, whether delivered or not.\<close>

fun scanned :: "Board \<Rightarrow> GameState \<Rightarrow> tick list \<Rightarrow> GameState list" where
  "scanned board acc [] = []"
| "scanned board acc ((h, r1, r2) # ticks) =
     (case transition board acc h r1 r2 of
        Inl e \<Rightarrow> []
      | Inr (st, fx) \<Rightarrow> st # (if isAlive st then scanned board st ticks else []))"

subsection \<open>The drawing surface and the subscriber\<close>

text \<open>
  An \<open>SVGSVGElement\<close> is a reference (a number) into the document. Of the document the
  model keeps the child elements of each surface (for a \<open>rect\<close> element its \<open>id\<close> and its
  \<open>x\<close>, \<open>y\<close>, \<open>width\<close> and \<open>height\<close> attributes), the size of its bounding rectangle, the
  score written by \<open>addScore\<close> and the calls of \<open>endGame\<close>. The elements of the page that
  \<open>addScore\<close> and \<open>endGame\<close> look up by their ids are taken to exist.
\<close>

record Element =
  el_id :: string
  el_rect :: Rect

record Dom =
  children :: "nat \<Rightarrow> Element list"
  bounding :: "nat \<Rightarrow> real \<times> real"
  scoreText :: "nat option"
  endGameCalls :: "nat list"

text \<open>
  \<open>getElementById(i).remove()\<close> on a list of children: the first element with the id is
  removed; \<open>None\<close> when there is none (\<open>getElementById\<close> returns \<open>null\<close>).
\<close>

fun removeById :: "string \<Rightarrow> Element list \<Rightarrow> Element list option" where
  "removeById i [] = None"
| "removeById i (e # es) =
     (if el_id e = i then Some es else map_option ((#) e) (removeById i es))"

fun removeEach :: "string list \<Rightarrow> Element list \<Rightarrow> Element list option" where
  "removeEach [] es = Some es"
| "removeEach (i # ids) es =
     (case removeById i es of None \<Rightarrow> None | Some es' \<Rightarrow> removeEach ids es')"

text \<open>
  A game object: the surface and the board it was constructed with, and the accumulators
  of its subscriptions that have not ended (the observers of \<open>destroyed$\<close>).
\<close>

record Game =
  game_svg :: nat
  game_cellSize :: int
  game_board :: Board
  live :: "GameState list"

definition CELL_SIZE :: int where
  "CELL_SIZE = 16"

text \<open>The constructor of \<open>Game\<close>.\<close>

definition Game_new :: "nat \<Rightarrow> int \<Rightarrow> Dom \<Rightarrow> Game" where
  "Game_new svg_ref cs d =
     \<lparr>game_svg = svg_ref, game_cellSize = cs,
      game_board = Board_new (fst (bounding d svg_ref)) (snd (bounding d svg_ref)) cs,
      live = []\<rparr>"

text \<open>The function given to \<open>subscribe\<close>.\<close>

definition subscriber :: "Game \<Rightarrow> GameState \<Rightarrow> Dom \<Rightarrow> error + Dom" where
  "subscriber g gameState d =
     (let els1 = children d (game_svg g) @
                 map (\<lambda>c. \<lparr>el_id = cell_id c, el_rect = getRect (game_board g) c\<rparr>)
                   (newHead (snakeEvolution gameState))
      in case removeEach (map cell_id (oldTail (snakeEvolution gameState))) els1 of
           None \<Rightarrow> Inl TypeError
         | Some els2 \<Rightarrow>
             let els3 =
               (case find (\<lambda>e. el_id e = ''food'') els2 of
                  None \<Rightarrow> els2
                | Some food \<Rightarrow>
                    (case foodLocation gameState of
                       None \<Rightarrow> the (removeById ''food'' els2)
                     | Some f \<Rightarrow>
                         if cell_id f \<noteq> el_id food then the (removeById ''food'' els2)
                         else els2))
             in (case foodLocation gameState of
                   None \<Rightarrow> Inr (d\<lparr>children := (children d)(game_svg g := els3)\<rparr>)
                 | Some f \<Rightarrow>
                     Inr (d\<lparr>children := (children d)(game_svg g :=
                               els3 @ [\<lparr>el_id = ''food'', el_rect = getRect (game_board g) f\<rparr>]),
                            scoreText := Some (length (body (snake gameState)))\<rparr>)))"

text \<open>
  One emission of the timer, for each live subscription of a game in turn: the accumulator
  function runs; a dead state ends the subscription and is not given to the subscriber.
  An exception ends the run.
\<close>

fun onTick :: "Game \<Rightarrow> tick \<Rightarrow> GameState list \<Rightarrow> Dom \<Rightarrow> error + (GameState list \<times> Dom)" where
  "onTick g t [] d = Inr ([], d)"
| "onTick g (h, r1, r2) (acc # accs) d =
     (case transition (game_board g) acc h r1 r2 of
        Inl e \<Rightarrow> Inl e
      | Inr (st, fx) \<Rightarrow>
          let d1 = d\<lparr>endGameCalls := endGameCalls d @ map (\<lambda>fx. case fx of EndGame n \<Rightarrow> n) fx\<rparr>
          in if isAlive st
             then (case subscriber g st d1 of
                     Inl e \<Rightarrow> Inl e
                   | Inr d2 \<Rightarrow>
                       (case onTick g (h, r1, r2) accs d2 of
                          Inl e \<Rightarrow> Inl e
                        | Inr (accs', d3) \<Rightarrow> Inr (st # accs', d3)))
             else onTick g (h, r1, r2) accs d1)"

text \<open>
  \<open>Game.gameOn\<close>: subscribing delivers \<open>state0\<close> at once (\<open>startWith\<close>); the subscription
  stays live.
\<close>

definition Game_gameOn :: "Game \<Rightarrow> Dom \<Rightarrow> error + (Game \<times> Dom)" where
  "Game_gameOn g d =
     (let s0 = state0 (game_board g)
      in if isAlive s0
         then (case subscriber g s0 d of
                 Inl e \<Rightarrow> Inl e
               | Inr d' \<Rightarrow> Inr (g\<lparr>live := live g @ [s0]\<rparr>, d'))
         else Inr (g, d))"

text \<open>\<open>Game.abandon\<close>: \<open>destroyed$\<close> ends every live subscription; all children go.\<close>

definition abandon :: "Game \<Rightarrow> Dom \<Rightarrow> Game \<times> Dom" where
  "abandon g d = (g\<lparr>live := []\<rparr>, d\<lparr>children := (children d)(game_svg g := [])\<rparr>)"

subsection \<open>The module: \<open>currentGame\<close> and \<open>gameOn\<close>\<close>

record World =
  currentGame :: "Game option"
  dom :: Dom

definition gameOn :: "nat \<Rightarrow> World \<Rightarrow> error + World" where
  "gameOn svg_ref w =
     (let (g, d) =
        (case currentGame w of
           Some g0 \<Rightarrow> abandon g0 (dom w)
         | None \<Rightarrow> (Game_new svg_ref CELL_SIZE (dom w), dom w))
      in case Game_gameOn g d of
           Inl e \<Rightarrow> Inl e
         | Inr (g', d') \<Rightarrow> Inr \<lparr>currentGame = Some g', dom = d'\<rparr>)"

text \<open>What happens to the module: a call of \<open>gameOn\<close>, or an emission of the timer.\<close>

datatype call = GameOn nat | Tick tick

definition step :: "call \<Rightarrow> World \<Rightarrow> error + World" where
  "step c w =
     (case c of
        GameOn svg_ref \<Rightarrow> gameOn svg_ref w
      | Tick t \<Rightarrow>
          (case currentGame w of
             None \<Rightarrow> Inr w
           | Some g \<Rightarrow>
               (case onTick g t (live g) (dom w) of
                  Inl e \<Rightarrow> Inl e
                | Inr (accs, d) \<Rightarrow> Inr \<lparr>currentGame = Some (g\<lparr>live := accs\<rparr>), dom = d\<rparr>)))"

fun steps :: "call list \<Rightarrow> World \<Rightarrow> error + World" where
  "steps [] w = Inr w"
| "steps (c # cs) w = (case step c w of Inl e \<Rightarrow> Inl e | Inr w' \<Rightarrow> steps cs w')"

text \<open>The module when it is loaded: no game yet.\<close>

definition world0 :: "Dom \<Rightarrow> World" where
  "world0 d = \<lparr>currentGame = None, dom = d\<rparr>"

subsection \<open>Auxiliary definitions\<close>

text \<open>Reading a string of decimal digits back, to show that \<open>digits\<close> loses nothing.\<close>

definition digit_value :: "char \<Rightarrow> nat" where
  "digit_value c = of_char c - 48"

definition digits_value :: "string \<Rightarrow> nat" where
  "digits_value s = foldl (\<lambda>a c. 10 * a + digit_value c) 0 s"

text \<open>
  The board of the bounds scenario, and the state one tick after \<open>state0\<close> on it when the
  sampled heading is East; \<open>f\<close> is the food.
\<close>

definition board5 :: Board where
  "board5 = \<lparr>width = 5, height = 5, cellSize = 16\<rparr>"

definition cell :: "int \<Rightarrow> int \<Rightarrow> CellLocation" where
  "cell a b = \<lparr>cell_x = a, cell_y = b\<rparr>"

definition after_tick1 :: "CellLocation option \<Rightarrow> GameState" where
  "after_tick1 f =
     \<lparr>isAlive = True,
      snake = \<lparr>body = [cell 3 2, cell 4 2], heading = E\<rparr>,
      snakeEvolution = \<lparr>newHead = [cell 4 2], oldTail = [cell 2 2]\<rparr>,
      foodLocation = f\<rparr>"

text \<open>The elements that the subscriber draws for \<open>state0\<close>.\<close>

definition start_rects :: "Board \<Rightarrow> Element list" where
  "start_rects board =
     map (\<lambda>c. \<lparr>el_id = cell_id c, el_rect = getRect board c\<rparr>) (startSnake board 2 E)"

text \<open>At most one subscription of the current game is live.\<close>

definition at_most_one :: "World \<Rightarrow> bool" where
  "at_most_one w = (case currentGame w of None \<Rightarrow> True | Some g \<Rightarrow> length (live g) \<le> 1)"

text \<open>
  A document with two empty surfaces, number 10 of 80 by 80 pixels and number 20 of 160 by
  160 pixels; the game that \<open>gameOn\<close> constructs on surface 10, once started; and the module
  after that call.
\<close>

definition dom0 :: Dom where
  "dom0 = \<lparr>children = (\<lambda>s. []),
           bounding = (\<lambda>s. if s = 10 then (80, 80) else (160, 160)),
           scoreText = None, endGameCalls = []\<rparr>"

definition game5 :: Game where
  "game5 = \<lparr>game_svg = 10, game_cellSize = 16, game_board = board5, live = [state0 board5]\<rparr>"

definition world1 :: World where
  "world1 = \<lparr>currentGame = Some game5,
            dom = dom0\<lparr>children := (children dom0)(10 := start_rects board5)\<rparr>\<rparr>"

section \<open>Cell identities\<close>

lemma below_ten: "(n::nat) < 10 \<Longrightarrow> n \<in> {0, 1, 2, 3, 4, 5, 6, 7, 8, 9}"
  by auto

lemma digit_char_value: "n < 10 \<Longrightarrow> digit_value (''0123456789'' ! n) = n"
  using below_ten [of n] by (auto simp: digit_value_def)

lemma digit_char_mem: "n < 10 \<Longrightarrow> ''0123456789'' ! n \<in> set ''0123456789''"
  using below_ten [of n] by auto

lemma digits_value_snoc: "digits_value (s @ [c]) = 10 * digits_value s + digit_value c"
  by (simp add: digits_value_def)

lemma digits_value_digits: "digits_value (digits n) = n"
proof (induction n rule: digits.induct)
  case (1 n)
  show ?case
  proof (cases "n < 10")
    case True
    then show ?thesis
      by (subst digits.simps) (simp add: digits_value_def digit_char_value)
  next
    case False
    have "digits_value (digits n) =
          10 * digits_value (digits (n div 10)) + digit_value (''0123456789'' ! (n mod 10))"
      using False by (subst digits.simps) (simp only: if_False digits_value_snoc)
    also have "\<dots> = 10 * (n div 10) + n mod 10"
      using 1 False by (simp add: digit_char_value)
    finally show ?thesis by simp
  qed
qed

lemma digits_inj: "digits m = digits n \<Longrightarrow> m = n"
  by (metis digits_value_digits)

lemma digits_chars: "set (digits n) \<subseteq> set ''0123456789''"
proof (induction n rule: digits.induct)
  case (1 n)
  show ?case
  proof (cases "n < 10")
    case True
    then show ?thesis
      using digit_char_mem [of n] by (subst digits.simps) simp
  next
    case False
    then show ?thesis
      using 1 digit_char_mem [of "n mod 10"] by (subst digits.simps) simp
  qed
qed

lemma toString_inj: "toString i = toString j \<Longrightarrow> i = j"
proof -
  assume eq: "toString i = toString j"
  have nm: "CHR ''-'' \<notin> set (digits n)" for n
    using digits_chars [of n] by auto
  have ne: "CHR ''-'' # digits m \<noteq> digits n" for m n
    using nm [of n] by (metis list.set_intros(1))
  show ?thesis
  proof (cases "i < 0"; cases "j < 0")
    assume "i < 0" "j < 0"
    with eq have "nat (- i) = nat (- j)" by (simp add: toString_def digits_inj)
    with \<open>i < 0\<close> \<open>j < 0\<close> show ?thesis by simp
  next
    assume "i < 0" "\<not> j < 0"
    with eq ne show ?thesis by (simp add: toString_def)
  next
    assume "\<not> i < 0" "j < 0"
    with eq ne [of "nat (- j)" "nat i"] show ?thesis by (simp add: toString_def)
  next
    assume "\<not> i < 0" "\<not> j < 0"
    with eq have "nat i = nat j" by (simp add: toString_def digits_inj)
    with \<open>\<not> i < 0\<close> \<open>\<not> j < 0\<close> show ?thesis by simp
  qed
qed

lemma toString_no_underscore: "CHR ''_'' \<notin> set (toString i)"
  using digits_chars [of "nat i"] digits_chars [of "nat (- i)"]
  by (auto simp: toString_def)

lemma cell_id_inj: "cell_id a = cell_id b \<longleftrightarrow> a = b"
proof
  assume "cell_id a = cell_id b"
  then have "toString (cell_x a) @ CHR ''_'' # toString (cell_y a) =
             toString (cell_x b) @ CHR ''_'' # toString (cell_y b)"
    by (simp add: cell_id_def)
  then have "toString (cell_x a) = toString (cell_x b) \<and>
             toString (cell_y a) = toString (cell_y b)"
    using toString_no_underscore by (simp add: append_Cons_eq_iff)
  then have "cell_x a = cell_x b \<and> cell_y a = cell_y b"
    by (blast dest: toString_inj)
  then show "a = b" by simp
qed simp

lemma find_by_id: "find (\<lambda>c. cell_id c = cell_id nh) cells \<noteq> None \<longleftrightarrow> nh \<in> set cells"
  by (auto simp: find_None_iff cell_id_inj)

lemma didDie_iff:
  "didDie board acc nh \<longleftrightarrow> \<not> isWithinBounds board nh \<or> nh \<in> set (body (snake acc))"
  unfolding didDie_def find_by_id ..

lemma didEat_iff: "didEat acc nh \<longleftrightarrow> foodLocation acc = Some nh"
  by (auto simp: didEat_def cell_id_inj split: option.splits)

text \<open>
  Claim C10. Two cells have the same \<open>id\<close> exactly when they have the same coordinates.
  Hence the search by \<open>id\<close> in the death test finds a cell exactly when the new head is a
  cell of the body, and the comparison of \<open>id\<close>s in the eating test holds exactly when
  the food is the new head.
\<close>

theorem cell_id_equality:
  "(cell_id (a::CellLocation) = cell_id (b::CellLocation) \<longleftrightarrow>
      cell_x a = cell_x b \<and> cell_y a = cell_y b) \<and>
   (find (\<lambda>c. cell_id c = cell_id nh) cells \<noteq> None \<longleftrightarrow> nh \<in> set cells) \<and>
   (didEat acc nh \<longleftrightarrow> foodLocation acc = Some nh)"
  using cell_id_inj [of a b] find_by_id [of nh cells] didEat_iff [of acc nh] by auto

section \<open>The accumulator function\<close>

lemma transition_empty:
  "body (snake acc) = [] \<Longrightarrow> transition board acc h r1 r2 = Inl TypeError"
  by (simp add: transition_def)

lemma transition_dies:
  "body (snake acc) \<noteq> [] \<Longrightarrow> didDie board acc (movedHead acc h) \<Longrightarrow>
   transition board acc h r1 r2 =
     Inr (acc\<lparr>isAlive := False\<rparr>, [EndGame (length (body (snake acc)))])"
  by (simp add: transition_def split: list.splits)

lemma transition_survives:
  "body (snake acc) = b0 # rest \<Longrightarrow> \<not> didDie board acc (movedHead acc h) \<Longrightarrow>
   transition board acc h r1 r2 =
     Inr (\<lparr>isAlive = True,
           snake = \<lparr>body = (if didEat acc (movedHead acc h)
                            then body (snake acc) @ [movedHead acc h]
                            else rest @ [movedHead acc h]),
                    heading = newHeading acc h\<rparr>,
           snakeEvolution = \<lparr>newHead = [movedHead acc h],
                             oldTail = (if didEat acc (movedHead acc h) then [] else [b0])\<rparr>,
           foodLocation = (if didEat acc (movedHead acc h) \<or> foodLocation acc = None
                           then Some (Board_random board r1 r2) else foodLocation acc)\<rparr>, [])"
  by (simp add: transition_def Let_def)

lemma transition_alive_iff:
  "transition board acc h r1 r2 = Inr (st, fx) \<Longrightarrow>
   isAlive st \<longleftrightarrow> \<not> didDie board acc (movedHead acc h)"
  by (cases "body (snake acc)"; cases "didDie board acc (movedHead acc h)")
     (auto simp: transition_empty transition_dies transition_survives)

subsection \<open>The scenario on the board of five by five cells\<close>

lemmas eval_defs = transition_def movedHead_def newHeading_def didDie_def didEat_def
  isWithinBounds_def cell_id_inj Let_def

lemma state0_board5:
  "state0 board5 =
     \<lparr>isAlive = True, snake = \<lparr>body = [cell 2 2, cell 3 2], heading = E\<rparr>,
      snakeEvolution = \<lparr>newHead = [cell 2 2, cell 3 2], oldTail = []\<rparr>,
      foodLocation = None\<rparr>"
  by (simp add: state0_def startSnake_def board5_def cell_def Let_def)

lemma first_tick:
  "transition board5 (state0 board5) E r1 r2 =
     Inr (after_tick1 (Some (Board_random board5 r1 r2)), [])"
  by (simp add: state0_board5 after_tick1_def eval_defs) (simp add: cell_def board5_def)

lemma second_tick:
  "transition board5 (after_tick1 f) E r1 r2 =
     Inr ((after_tick1 f)\<lparr>isAlive := False\<rparr>, [EndGame 2])"
  by (simp add: after_tick1_def eval_defs) (simp add: cell_def board5_def)

lemma second_tick_head: "movedHead (after_tick1 f) E = cell 5 2"
  by (simp add: after_tick1_def movedHead_def newHeading_def cell_def)

lemma second_tick_dies: "didDie board5 (after_tick1 f) (movedHead (after_tick1 f) E)"
  by (simp add: second_tick_head didDie_def isWithinBounds_def board5_def cell_def)

lemma random_origin: "Board_random board5 0 0 = cell 0 0"
  by (simp add: Board_random_def cell_def)

subsection \<open>Movement and turning\<close>

text \<open>
  Claim C9. A step in a heading \<open>h\<close> followed by a step in a heading opposite to \<open>h\<close>
  leads back to the cell one started from.
\<close>

theorem move_round_trip:
  "isOpposite h h2 \<Longrightarrow> next_cell (next_cell (c::CellLocation) h) h2 = c"
  by (cases h; cases h2) simp_all

theorem move_round_trip_witness:
  "isOpposite N S \<and> next_cell (next_cell (cell 2 2) N) S = cell 2 2"
proof -
  have h: "isOpposite N S" by simp
  from move_round_trip [OF h, of "cell 2 2"] h show ?thesis by simp
qed

text \<open>
  Claim C6. The effective heading of a tick, \<open>newHeading\<close>, is the previous heading when
  the sampled heading is its opposite, and the sampled heading otherwise (also when it is
  the previous heading again). It is the heading the head moves in, and the heading of the
  state that results when the snake survives. When the snake dies the state keeps the
  previous heading.
\<close>

theorem turn_resolution:
  assumes "transition board acc h r1 r2 = Inr (st, fx)"
  shows "newHeading acc h =
           (if isOpposite (heading (snake acc)) h then heading (snake acc) else h) \<and>
         (if isAlive st
          then heading (snake st) = newHeading acc h \<and>
               last (body (snake st)) =
                 next_cell (last (body (snake acc))) (newHeading acc h)
          else heading (snake st) = heading (snake acc))"
proof -
  from assms obtain b0 rest where b: "body (snake acc) = b0 # rest"
    by (cases "body (snake acc)") (auto simp: transition_empty)
  show ?thesis
  proof (cases "didDie board acc (movedHead acc h)")
    case True
    with assms b show ?thesis by (auto simp: transition_dies newHeading_def)
  next
    case False
    with assms b show ?thesis
      by (auto simp: transition_survives newHeading_def movedHead_def)
  qed
qed

theorem turn_resolution_witness:
  "transition board5 (state0 board5) W 0 0 = Inr (after_tick1 (Some (cell 0 0)), []) \<and>
   isOpposite (heading (snake (state0 board5))) W \<and>
   newHeading (state0 board5) W = E \<and>
   heading (snake (after_tick1 (Some (cell 0 0)))) = E"
proof -
  have t: "transition board5 (state0 board5) W 0 0 = Inr (after_tick1 (Some (cell 0 0)), [])"
    by (simp add: state0_board5 after_tick1_def eval_defs random_origin)
       (simp add: cell_def board5_def)
  have o: "isOpposite (heading (snake (state0 board5))) W" by (simp add: state0_board5)
  have a: "isAlive (after_tick1 (Some (cell 0 0)))" by (simp add: after_tick1_def)
  have e: "heading (snake (state0 board5)) = E" by (simp add: state0_board5)
  note c = turn_resolution [OF t]
  from c o e have n: "newHeading (state0 board5) W = E" by simp
  from c a n have h: "heading (snake (after_tick1 (Some (cell 0 0)))) = E" by simp
  from n h o t show ?thesis by simp
qed

subsection \<open>Death\<close>

text \<open>
  Claim C7. For a previous state whose body is not empty (every state the game reaches),
  alive or not, the state that results is dead exactly when the new head is outside the
  board or is a cell of the body before the move, its oldest cell included.
\<close>

theorem death_test:
  assumes "body (snake acc) \<noteq> []"
  shows "(case transition board acc h r1 r2 of Inl e \<Rightarrow> False | Inr (st, fx) \<Rightarrow> \<not> isAlive st) \<longleftrightarrow>
         (\<not> isWithinBounds board (movedHead acc h) \<or>
          movedHead acc h \<in> set (body (snake acc)))"
proof (cases "didDie board acc (movedHead acc h)")
  case True
  with assms show ?thesis using didDie_iff [of board acc "movedHead acc h"]
    by (simp add: transition_dies)
next
  case False
  from assms obtain b0 rest where "body (snake acc) = b0 # rest"
    by (cases "body (snake acc)") auto
  with False show ?thesis using didDie_iff [of board acc "movedHead acc h"]
    by (simp add: transition_survives)
qed

theorem death_test_witness:
  "body (snake (after_tick1 None)) \<noteq> [] \<and>
   (case transition board5 (after_tick1 None) E 0 0 of
      Inl e \<Rightarrow> False
    | Inr (st, fx) \<Rightarrow> \<not> isAlive st) \<and>
   \<not> isWithinBounds board5 (movedHead (after_tick1 None) E)"
proof -
  have h: "body (snake (after_tick1 None)) \<noteq> []" by (simp add: after_tick1_def)
  have "\<not> isWithinBounds board5 (cell 5 2)"
    by (simp add: isWithinBounds_def board5_def cell_def)
  with death_test [OF h, of board5 E 0 0] h show ?thesis by (simp add: second_tick_head)
qed

text \<open>
  Claim C1, as the code has it. When the death test fires, the state that results is the
  previous state with \<open>isAlive\<close> set to false: the snake, the food and the evolution diff
  are those of the previous state, and \<open>endGame\<close> is called with the length of the body.
  The diff is not emptied.
\<close>

theorem death_keeps_previous_state:
  assumes "body (snake acc) \<noteq> []" and "didDie board acc (movedHead acc h)"
  shows "transition board acc h r1 r2 =
           Inr (acc\<lparr>isAlive := False\<rparr>, [EndGame (length (body (snake acc)))])"
  using assms by (rule transition_dies)

theorem death_keeps_previous_state_witness:
  "body (snake (after_tick1 None)) \<noteq> [] \<and>
   didDie board5 (after_tick1 None) (movedHead (after_tick1 None) E) \<and>
   transition board5 (after_tick1 None) E 0 0 =
     Inr ((after_tick1 None)\<lparr>isAlive := False\<rparr>, [EndGame 2])"
proof -
  have h: "body (snake (after_tick1 None)) \<noteq> []" by (simp add: after_tick1_def)
  from death_keeps_previous_state [OF h second_tick_dies, of 0 0] h second_tick_dies
  show ?thesis by (simp add: after_tick1_def)
qed

text \<open>
  Claim C1 as stated fails: on the board of five by five cells, the state one tick after
  \<open>state0\<close> dies on the next tick to the East, and the dead state still has the diff of
  the tick before, one cell added and one removed.
\<close>

theorem death_evolution_counterexample:
  "didDie board5 (after_tick1 None) (movedHead (after_tick1 None) E) \<and>
   (case transition board5 (after_tick1 None) E 0 0 of
      Inl e \<Rightarrow> False
    | Inr (st, fx) \<Rightarrow>
        \<not> isAlive st \<and> newHead (snakeEvolution st) = [cell 4 2] \<and>
        oldTail (snakeEvolution st) = [cell 2 2])"
  by (simp add: second_tick second_tick_dies) (simp add: after_tick1_def)

subsection \<open>Growth\<close>

text \<open>
  Claim C5. When the snake survives a tick: if it ate (the food was the new head), the
  body is one cell longer and nothing is removed; if it did not, the body has the length
  it had and exactly the oldest cell of the previous body is removed.
\<close>

theorem growth_and_shrink:
  assumes "transition board acc h r1 r2 = Inr (st, fx)" and "isAlive st"
  shows "if foodLocation acc = Some (movedHead acc h)
         then length (body (snake st)) = length (body (snake acc)) + 1 \<and>
              oldTail (snakeEvolution st) = []
         else length (body (snake st)) = length (body (snake acc)) \<and>
              oldTail (snakeEvolution st) = [hd (body (snake acc))]"
proof -
  from assms obtain b0 rest where b: "body (snake acc) = b0 # rest"
    by (cases "body (snake acc)") (auto simp: transition_empty)
  from assms have "\<not> didDie board acc (movedHead acc h)"
    by (simp add: transition_alive_iff)
  with assms b show ?thesis
    by (auto simp: transition_survives didEat_iff)
qed

theorem growth_and_shrink_witness:
  "transition board5 (state0 board5\<lparr>foodLocation := Some (cell 4 2)\<rparr>) E 0 0 =
     Inr (\<lparr>isAlive = True,
           snake = \<lparr>body = [cell 2 2, cell 3 2, cell 4 2], heading = E\<rparr>,
           snakeEvolution = \<lparr>newHead = [cell 4 2], oldTail = []\<rparr>,
           foodLocation = Some (cell 0 0)\<rparr>, []) \<and>
   foodLocation (state0 board5\<lparr>foodLocation := Some (cell 4 2)\<rparr>) =
     Some (movedHead (state0 board5\<lparr>foodLocation := Some (cell 4 2)\<rparr>) E) \<and>
   length (body (snake (state0 board5\<lparr>foodLocation := Some (cell 4 2)\<rparr>))) = 2"
proof -
  let ?acc = "state0 board5\<lparr>foodLocation := Some (cell 4 2)\<rparr>"
  let ?st = "\<lparr>isAlive = True,
              snake = \<lparr>body = [cell 2 2, cell 3 2, cell 4 2], heading = E\<rparr>,
              snakeEvolution = \<lparr>newHead = [cell 4 2], oldTail = []\<rparr>,
              foodLocation = Some (cell 0 0)\<rparr>"
  have t: "transition board5 ?acc E 0 0 = Inr (?st, [])"
    by (simp add: state0_board5 eval_defs random_origin) (simp add: cell_def board5_def)
  have a: "isAlive ?st" by simp
  have f: "foodLocation ?acc = Some (movedHead ?acc E)"
    by (simp add: state0_board5 movedHead_def newHeading_def cell_def)
  from growth_and_shrink [OF t a] f
  have "length (body (snake ?st)) = length (body (snake ?acc)) + 1"
    by simp
  with t f show ?thesis by simp
qed

subsection \<open>No cell twice in the body\<close>

lemma transition_distinct:
  assumes "transition board acc h r1 r2 = Inr (st, fx)" and "distinct (body (snake acc))"
  shows "distinct (body (snake st))"
proof -
  from assms obtain b0 rest where b: "body (snake acc) = b0 # rest"
    by (cases "body (snake acc)") (auto simp: transition_empty)
  show ?thesis
  proof (cases "didDie board acc (movedHead acc h)")
    case True
    with assms b show ?thesis by (auto simp: transition_dies)
  next
    case False
    then have "movedHead acc h \<notin> set (body (snake acc))" by (simp add: didDie_iff)
    with False assms b show ?thesis by (auto simp: transition_survives)
  qed
qed

lemma scanned_distinct:
  "distinct (body (snake acc)) \<Longrightarrow> st \<in> set (scanned board acc ticks) \<Longrightarrow>
   distinct (body (snake st))"
proof (induction ticks arbitrary: acc)
  case Nil
  then show ?case by simp
next
  case (Cons t ticks)
  obtain h r1 r2 where t: "t = (h, r1, r2)" by (cases t) auto
  show ?case
  proof (cases "transition board acc h r1 r2")
    case (Inl e)
    with Cons.prems t show ?thesis by simp
  next
    case (Inr p)
    obtain s1 fx where p: "p = (s1, fx)" by (cases p) auto
    have d1: "distinct (body (snake s1))"
      using Inr p Cons.prems(1) by (auto dest: transition_distinct)
    from Cons.prems(2) t Inr p have "st = s1 \<or> st \<in> set (scanned board s1 ticks)"
      by (auto split: if_splits)
    then show ?thesis using d1 Cons.IH [OF d1] by auto
  qed
qed

lemma state0_distinct: "distinct (body (snake (state0 board)))"
  by (simp add: state0_def startSnake_def Let_def)

text \<open>
  Claim C8. On any board, \<open>state0\<close> and every state the accumulator function produces
  from it, for any headings sampled and any random numbers drawn for the food, has a body
  with no cell twice. This holds for the alive states the claim is about, and for the dead
  state that ends a session too.
\<close>

theorem body_distinct:
  assumes "st \<in> set (state0 board # scanned board (state0 board) ticks)"
  shows "distinct (body (snake st))"
  using assms state0_distinct [of board]
  by (auto dest: scanned_distinct [OF state0_distinct])

theorem body_distinct_witness:
  "after_tick1 (Some (cell 0 0)) \<in>
     set (state0 board5 # scanned board5 (state0 board5) [(E, 0, 0)]) \<and>
   isAlive (after_tick1 (Some (cell 0 0))) \<and>
   distinct (body (snake (after_tick1 (Some (cell 0 0)))))"
proof -
  have m: "after_tick1 (Some (cell 0 0)) \<in>
             set (state0 board5 # scanned board5 (state0 board5) [(E, 0, 0)])"
    by (simp add: first_tick random_origin)
  have a: "isAlive (after_tick1 (Some (cell 0 0)))" by (simp add: after_tick1_def)
  from body_distinct [OF m] m a show ?thesis by simp
qed

subsection \<open>The bounds scenario\<close>

text \<open>
  Claim C4, as the code has it. On the board of five by five cells with cells of size 16,
  \<open>state0\<close> has the body (2,2), (3,2) and the heading East. With the heading East sampled
  on every tick and whatever the random numbers: the first tick gives the body (3,2),
  (4,2), alive, nothing eaten; on the second tick the new head (5,2) is outside the board,
  and the state is dead with the body of the tick before. There is no third tick.
\<close>

theorem bounds_scenario:
  "body (snake (state0 board5)) = [cell 2 2, cell 3 2] \<and>
   heading (snake (state0 board5)) = E \<and>
   scanned board5 (state0 board5) [(E, r1, r2), (E, r3, r4)] =
     [\<lparr>isAlive = True, snake = \<lparr>body = [cell 3 2, cell 4 2], heading = E\<rparr>,
       snakeEvolution = \<lparr>newHead = [cell 4 2], oldTail = [cell 2 2]\<rparr>,
       foodLocation = Some (Board_random board5 r1 r2)\<rparr>,
      \<lparr>isAlive = False, snake = \<lparr>body = [cell 3 2, cell 4 2], heading = E\<rparr>,
       snakeEvolution = \<lparr>newHead = [cell 4 2], oldTail = [cell 2 2]\<rparr>,
       foodLocation = Some (Board_random board5 r1 r2)\<rparr>] \<and>
   movedHead (after_tick1 (Some (Board_random board5 r1 r2))) E = cell 5 2 \<and>
   isWithinBounds board5 (cell 5 2) = False"
proof -
  have "body (snake (state0 board5)) = [cell 2 2, cell 3 2] \<and>
        heading (snake (state0 board5)) = E"
    by (simp add: state0_board5)
  moreover have "\<not> isWithinBounds board5 (cell 5 2)"
    by (simp add: isWithinBounds_def board5_def cell_def)
  ultimately show ?thesis
    by (simp add: first_tick second_tick second_tick_head) (simp add: after_tick1_def)
qed

text \<open>
  Claim C4 as stated fails: after two ticks the state is dead, not alive, and the tick on
  which the head would reach (5,2) is the second, not the third.
\<close>

theorem bounds_scenario_counterexample:
  "map isAlive (scanned board5 (state0 board5) [(E, 0, 0), (E, 0, 0)]) = [True, False]"
  by (simp add: first_tick second_tick) (simp add: after_tick1_def)

section \<open>The stream of one session\<close>

lemma pump_delivers_alive:
  "Deliver gs \<in> set (fst (pump board acc ticks)) \<Longrightarrow> isAlive gs"
proof (induction ticks arbitrary: acc)
  case Nil
  then show ?case by simp
next
  case (Cons t ticks)
  obtain h r1 r2 where t: "t = (h, r1, r2)" by (cases t) auto
  show ?case
  proof (cases "transition board acc h r1 r2")
    case (Inl e)
    with Cons.prems t show ?thesis by simp
  next
    case (Inr p)
    obtain s1 fx where p: "p = (s1, fx)" by (cases p) auto
    show ?thesis
    proof (cases "isAlive s1")
      case True
      with Cons.prems t Inr p
      have "gs = s1 \<or> Deliver gs \<in> set (fst (pump board s1 ticks))"
        by (auto split: prod.splits)
      with True Cons.IH show ?thesis by auto
    next
      case False
      with Cons.prems t Inr p show ?thesis by auto
    qed
  qed
qed

lemma session_delivers_alive:
  "Deliver gs \<in> set (fst (session board ticks)) \<Longrightarrow> isAlive gs"
proof -
  assume d: "Deliver gs \<in> set (fst (session board ticks))"
  have a0: "isAlive (state0 board)" by (simp add: state0_def Let_def)
  from d a0
  have "gs = state0 board \<or> Deliver gs \<in> set (fst (pump board (state0 board) ticks))"
    by (cases "pump board (state0 board) ticks") (auto simp: session_def)
  with a0 show ?thesis by (auto dest: pump_delivers_alive)
qed

lemma pump_dead:
  assumes "transition board acc h r1 r2 = Inr (st, fx)" and "\<not> isAlive st"
  shows "pump board acc ((h, r1, r2) # ticks) =
           ([Notify (EndGame (length (body (snake acc))))], None)"
proof -
  from assms have b: "body (snake acc) \<noteq> []" by (auto simp: transition_empty)
  from assms have "didDie board acc (movedHead acc h)" by (simp add: transition_alive_iff)
  with b assms show ?thesis by (auto simp: transition_dies)
qed

text \<open>
  Claim C2, as the code has it. When the accumulator function yields a dead state, then
  whatever ticks would follow, the subscription does one thing more and no other: the one
  call of \<open>endGame\<close> that the accumulator function itself makes, with the length of the
  body. The dead state is not delivered to the subscriber (the renderer), in this session
  or any other, and nothing is delivered after it.
\<close>

theorem dead_state_not_delivered:
  assumes "transition board acc h r1 r2 = Inr (st, fx)" and "\<not> isAlive st"
  shows "pump board acc ((h, r1, r2) # ticks) =
           ([Notify (EndGame (length (body (snake acc))))], None) \<and>
         Deliver st \<notin> set (fst (session board' ticks'))"
  using assms pump_dead [OF assms] session_delivers_alive [of st board' ticks'] by auto

theorem dead_state_not_delivered_witness:
  "transition board5 (after_tick1 None) E 0 0 =
     Inr ((after_tick1 None)\<lparr>isAlive := False\<rparr>, [EndGame 2]) \<and>
   \<not> isAlive ((after_tick1 None)\<lparr>isAlive := False\<rparr>) \<and>
   pump board5 (after_tick1 None) [(E, 0, 0), (N, 0, 0), (W, 0, 0)] =
     ([Notify (EndGame 2)], None) \<and>
   Deliver ((after_tick1 None)\<lparr>isAlive := False\<rparr>) \<notin>
     set (fst (session board5 [(E, 0, 0), (E, 0, 0)]))"
proof -
  have t: "transition board5 (after_tick1 None) E 0 0 =
             Inr ((after_tick1 None)\<lparr>isAlive := False\<rparr>, [EndGame 2])"
    by (rule second_tick)
  have d: "\<not> isAlive ((after_tick1 None)\<lparr>isAlive := False\<rparr>)" by simp
  from dead_state_not_delivered
         [OF t d, of "[(N, 0, 0), (W, 0, 0)]" board5 "[(E, 0, 0), (E, 0, 0)]"] t d
  show ?thesis by (simp add: after_tick1_def)
qed

text \<open>
  Claim C2 as stated fails: in the session of the bounds scenario the second tick yields
  the dead state, and the subscriber is called with \<open>state0\<close> and with the state of the
  first tick only; the dead state is delivered not once but never.
\<close>

theorem terminal_delivery_counterexample:
  "scanned board5 (state0 board5) [(E, 0, 0), (E, 0, 0), (E, 0, 0)] =
     [after_tick1 (Some (cell 0 0)), (after_tick1 (Some (cell 0 0)))\<lparr>isAlive := False\<rparr>] \<and>
   session board5 [(E, 0, 0), (E, 0, 0), (E, 0, 0)] =
     ([Deliver (state0 board5), Deliver (after_tick1 (Some (cell 0 0))),
       Notify (EndGame 2)], None) \<and>
   Deliver ((after_tick1 (Some (cell 0 0)))\<lparr>isAlive := False\<rparr>) \<notin>
     set (fst (session board5 [(E, 0, 0), (E, 0, 0), (E, 0, 0)]))"
  by (simp add: session_def first_tick second_tick random_origin)
     (simp add: state0_board5 after_tick1_def)

section \<open>The module\<close>

lemma cell_id_not_food: "cell_id c \<noteq> ''food''"
proof
  assume "cell_id c = ''food''"
  then have "set (cell_id c) = set ''food''" by simp
  moreover have "CHR ''_'' \<in> set (cell_id c)" by (simp add: cell_id_def)
  ultimately show False by simp
qed

lemma find_food_start_rects: "find (\<lambda>e. el_id e = ''food'') (start_rects board) = None"
  by (simp add: start_rects_def startSnake_def Let_def cell_id_not_food)

lemma state0_fields:
  "isAlive (state0 board)"
  "newHead (snakeEvolution (state0 board)) = startSnake board 2 E"
  "oldTail (snakeEvolution (state0 board)) = []"
  "foodLocation (state0 board) = None"
  by (simp_all add: state0_def Let_def)

lemma subscriber_state0_cleared:
  "children d (game_svg g) = [] \<Longrightarrow>
   subscriber g (state0 (game_board g)) d =
     Inr (d\<lparr>children := (children d)(game_svg g := start_rects (game_board g))\<rparr>)"
  using find_food_start_rects [of "game_board g"]
  by (simp add: subscriber_def state0_fields Let_def start_rects_def)

lemma subscriber_state0_total: "\<exists>d'. subscriber g (state0 board) d = Inr d'"
  by (simp add: subscriber_def state0_fields Let_def split: option.splits)

lemma gameOn_existing:
  assumes "currentGame w = Some g"
  shows "gameOn svg_ref w =
           Inr \<lparr>currentGame = Some (g\<lparr>live := [state0 (game_board g)]\<rparr>),
                dom = (dom w)\<lparr>children :=
                        (children (dom w))(game_svg g := start_rects (game_board g))\<rparr>\<rparr>"
proof -
  let ?d = "(dom w)\<lparr>children := (children (dom w))(game_svg g := [])\<rparr>"
  have "subscriber (g\<lparr>live := []\<rparr>) (state0 (game_board g)) ?d =
          Inr (?d\<lparr>children := (children ?d)(game_svg g := start_rects (game_board g))\<rparr>)"
    using subscriber_state0_cleared [of ?d "g\<lparr>live := []\<rparr>"] by simp
  with assms show ?thesis
    by (simp add: gameOn_def abandon_def Game_gameOn_def state0_fields Let_def)
qed

lemma gameOn_fresh:
  assumes "currentGame w = None"
  shows "\<exists>d'. gameOn svg_ref w =
           Inr \<lparr>currentGame = Some ((Game_new svg_ref CELL_SIZE (dom w))
                   \<lparr>live := [state0 (game_board (Game_new svg_ref CELL_SIZE (dom w)))]\<rparr>),
                dom = d'\<rparr>"
proof -
  let ?g = "Game_new svg_ref CELL_SIZE (dom w)"
  obtain d' where "subscriber ?g (state0 (game_board ?g)) (dom w) = Inr d'"
    using subscriber_state0_total by blast
  moreover have "live ?g = []" by (simp add: Game_new_def)
  ultimately show ?thesis using assms
    by (simp add: gameOn_def Game_gameOn_def state0_fields Let_def)
qed

lemma onTick_length:
  "onTick g t accs d = Inr (accs', d') \<Longrightarrow> length accs' \<le> length accs"
proof (induction accs arbitrary: d accs' d')
  case Nil
  then show ?case by (cases t) simp
next
  case (Cons acc accs)
  obtain h r1 r2 where t: "t = (h, r1, r2)" by (cases t) auto
  from Cons.prems t show ?case
    by (auto simp: Let_def split: sum.splits prod.splits if_splits
        dest!: Cons.IH [unfolded t])
qed

lemma step_at_most_one:
  assumes "at_most_one w" and "step c w = Inr w'"
  shows "at_most_one w'"
proof (cases c)
  case (GameOn s)
  show ?thesis
  proof (cases "currentGame w")
    case None
    with gameOn_fresh [OF None, of s] assms(2) GameOn show ?thesis
      by (auto simp: step_def at_most_one_def)
  next
    case (Some g)
    with gameOn_existing [OF Some, of s] assms(2) GameOn show ?thesis
      by (auto simp: step_def at_most_one_def)
  qed
next
  case (Tick t)
  show ?thesis
  proof (cases "currentGame w")
    case None
    with assms Tick show ?thesis by (auto simp: step_def)
  next
    case (Some g)
    with assms Tick show ?thesis
      by (auto simp: step_def at_most_one_def split: sum.splits prod.splits
          dest!: onTick_length)
  qed
qed

lemma steps_at_most_one:
  "at_most_one w \<Longrightarrow> steps cs w = Inr w' \<Longrightarrow> at_most_one w'"
proof (induction cs arbitrary: w)
  case Nil
  then show ?case by simp
next
  case (Cons c cs)
  then show ?case
    by (auto split: sum.splits dest: step_at_most_one)
qed

subsection \<open>Two calls on two surfaces\<close>

lemma Game_new_dom0: "Game_new 10 CELL_SIZE dom0 = game5\<lparr>live := []\<rparr>"
  by (simp add: Game_new_def CELL_SIZE_def dom0_def game5_def Board_new_def board5_def)

lemma first_call: "gameOn 10 (world0 dom0) = Inr world1"
proof -
  have c: "children dom0 (game_svg (game5\<lparr>live := []\<rparr>)) = []" by (simp add: dom0_def)
  have g: "game_board (game5\<lparr>live := []\<rparr>) = board5" "game_svg (game5\<lparr>live := []\<rparr>) = 10"
    by (simp_all add: game5_def)
  from subscriber_state0_cleared [OF c] g show ?thesis
    by (simp add: gameOn_def world0_def Game_new_dom0 Game_gameOn_def state0_fields world1_def)
       (simp add: game5_def)
qed

lemma second_call: "gameOn 20 world1 = Inr world1"
proof -
  have "currentGame world1 = Some game5" by (simp add: world1_def)
  from gameOn_existing [OF this, of 20] show ?thesis
    by (simp add: world1_def game5_def)
qed

text \<open>
  The first tick after the first call: the subscriber draws the new head, removes the
  oldest cell, draws the food and writes the score.
\<close>

lemma first_call_then_tick:
  "steps [GameOn 10, Tick (E, 0, 0)] (world0 dom0) =
     Inr \<lparr>currentGame = Some (game5\<lparr>live := [after_tick1 (Some (cell 0 0))]\<rparr>),
          dom = dom0\<lparr>children := (children dom0)(10 :=
                  [\<lparr>el_id = ''3_2'',
                    el_rect = \<lparr>rect_x = 48, rect_y = 32, rect_width = 16, rect_height = 16\<rparr>\<rparr>,
                   \<lparr>el_id = ''4_2'',
                    el_rect = \<lparr>rect_x = 64, rect_y = 32, rect_width = 16, rect_height = 16\<rparr>\<rparr>,
                   \<lparr>el_id = ''food'',
                    el_rect = \<lparr>rect_x = 0, rect_y = 0, rect_width = 16, rect_height = 16\<rparr>\<rparr>]),
               scoreText := Some 2\<rparr>\<rparr>"
  apply (simp add: step_def first_call)
  apply (simp add: world1_def game5_def first_tick random_origin)
  apply (simp add: subscriber_def after_tick1_def start_rects_def startSnake_def Let_def
      cell_id_inj cell_id_not_food dom0_def)
  apply (simp add: board5_def cell_def getRect_def cell_id_def toString_def digits.simps)
  done

text \<open>
  Claim C3, as the code has it. A call of \<open>gameOn\<close> when \<open>currentGame\<close> holds a game,
  whether its stream still runs or not: the game is abandoned (its subscriptions end, the
  children of its surface are removed) and the same game object is started again, on the
  surface and the board it was constructed with; the surface given to the call plays no
  part. A call when \<open>currentGame\<close> is empty constructs a game on the surface given and
  starts it. From the loading of the module on, whatever calls and ticks follow, at most
  one subscription is live.
\<close>

theorem gameOn_restarts_current_game:
  "(currentGame w = Some g \<longrightarrow>
      gameOn svg_ref w =
        Inr \<lparr>currentGame = Some (g\<lparr>live := [state0 (game_board g)]\<rparr>),
             dom = (dom w)\<lparr>children :=
                     (children (dom w))(game_svg g := start_rects (game_board g))\<rparr>\<rparr>) \<and>
   (currentGame w = None \<longrightarrow>
      map_sum id currentGame (gameOn svg_ref w) =
        Inr (Some ((Game_new svg_ref CELL_SIZE (dom w))
               \<lparr>live := [state0 (game_board (Game_new svg_ref CELL_SIZE (dom w)))]\<rparr>))) \<and>
   (steps cs (world0 d) = Inr w' \<longrightarrow> at_most_one w')"
proof (intro conjI impI)
  assume "currentGame w = Some g"
  then show "gameOn svg_ref w =
        Inr \<lparr>currentGame = Some (g\<lparr>live := [state0 (game_board g)]\<rparr>),
             dom = (dom w)\<lparr>children :=
                     (children (dom w))(game_svg g := start_rects (game_board g))\<rparr>\<rparr>"
    by (rule gameOn_existing)
next
  assume "currentGame w = None"
  from gameOn_fresh [OF this, of svg_ref]
  show "map_sum id currentGame (gameOn svg_ref w) =
        Inr (Some ((Game_new svg_ref CELL_SIZE (dom w))
               \<lparr>live := [state0 (game_board (Game_new svg_ref CELL_SIZE (dom w)))]\<rparr>))"
    by auto
next
  assume "steps cs (world0 d) = Inr w'"
  moreover have "at_most_one (world0 d)" by (simp add: at_most_one_def world0_def)
  ultimately show "at_most_one w'" by (rule steps_at_most_one [rotated])
qed

theorem gameOn_restarts_current_game_witness:
  "currentGame world1 = Some game5 \<and>
   gameOn 20 world1 =
     Inr \<lparr>currentGame = Some (game5\<lparr>live := [state0 board5]\<rparr>),
          dom = (dom world1)\<lparr>children :=
                  (children (dom world1))(10 := start_rects board5)\<rparr>\<rparr> \<and>
   currentGame (world0 dom0) = None \<and>
   map_sum id currentGame (gameOn 10 (world0 dom0)) = Inr (Some game5) \<and>
   steps [GameOn 10, GameOn 20] (world0 dom0) = Inr world1 \<and>
   at_most_one world1"
proof -
  have a: "currentGame world1 = Some game5" by (simp add: world1_def)
  have b: "currentGame (world0 dom0) = None" by (simp add: world0_def)
  have c: "steps [GameOn 10, GameOn 20] (world0 dom0) = Inr world1"
    by (simp add: step_def first_call second_call)
  have g: "game_board game5 = board5" "game_svg game5 = 10" by (simp_all add: game5_def)
  from gameOn_restarts_current_game
         [of world1 game5 20 "[GameOn 10, GameOn 20]" dom0 world1] a c
  have "gameOn 20 world1 =
     Inr \<lparr>currentGame = Some (game5\<lparr>live := [state0 board5]\<rparr>),
          dom = (dom world1)\<lparr>children :=
                  (children (dom world1))(10 := start_rects board5)\<rparr>\<rparr>"
    and "at_most_one world1"
    by (simp_all add: g)
  moreover from gameOn_restarts_current_game [of "world0 dom0" game5 10 "[]" dom0 world1] b
  have "map_sum id currentGame (gameOn 10 (world0 dom0)) = Inr (Some game5)"
    by (simp add: world0_def Game_new_dom0 g) (simp add: game5_def)
  ultimately show ?thesis using a b c by simp
qed

text \<open>
  Claim C3 as stated fails: after a call on surface 10 and a call on surface 20, the
  running game is the one constructed on surface 10, with the board of five by five cells
  of that surface; nothing is drawn on surface 20, whose board would have ten by ten
  cells.
\<close>

theorem gameOn_new_surface_counterexample:
  "steps [GameOn 10, GameOn 20] (world0 dom0) = Inr world1 \<and>
   map_option game_svg (currentGame world1) = Some 10 \<and>
   map_option game_board (currentGame world1) = Some board5 \<and>
   children (dom world1) 20 = [] \<and>
   Board_new (fst (bounding (dom world1) 20)) (snd (bounding (dom world1) 20)) CELL_SIZE =
     \<lparr>width = 10, height = 10, cellSize = 16\<rparr>"
  by (simp add: step_def first_call second_call)
     (simp add: world1_def game5_def dom0_def Board_new_def CELL_SIZE_def)

end
